theory Spec2Isabelle
  imports Main "HOL-Library.Word"
begin

section \<open>Event model (opencsd\_binding.h)\<close>

datatype mtrace_cs_event_kind_t =
    MTRACE_CS_EVENT_INSTRUCTION_RANGE
  | MTRACE_CS_EVENT_CALL
  | MTRACE_CS_EVENT_RETURN
  | MTRACE_CS_EVENT_TRACE_ON
  | MTRACE_CS_EVENT_TRACE_OFF
  | MTRACE_CS_EVENT_EXCEPTION
  | MTRACE_CS_EVENT_EXCEPTION_RET

text \<open>
  \<^verbatim>\<open>mtrace_cs_event_t\<close>. The field \<open>cpu\<close> is a C \<^verbatim>\<open>int\<close>: it is kept as its 32 bits
  and read as a signed number with \<open>sint\<close>.
\<close>

record mtrace_cs_event_t =
  kind :: mtrace_cs_event_kind_t
  timestamp :: "64 word"
  from_addr :: "64 word"
  to_addr :: "64 word"
  cpu :: "32 word"
  exception_number :: "32 word"

text \<open>\<^verbatim>\<open>memset(&ev, 0, sizeof(ev))\<close>: every field zero; the enumerator 0 is the instruction range.\<close>

definition zeroed_event :: mtrace_cs_event_t where
  "zeroed_event =
     \<lparr>kind = MTRACE_CS_EVENT_INSTRUCTION_RANGE, timestamp = 0, from_addr = 0, to_addr = 0,
      cpu = 0, exception_number = 0\<rparr>"

text \<open>
  What the heap answers to one allocation request: it refuses, or it grants the block, whose
  cells beyond the copied ones hold some value the program never chose.
\<close>

datatype heap_reply = ENOMEM | Granted mtrace_cs_event_t

section \<open>The engine's interface (OpenCSD C API, external)\<close>

text \<open>
  The OpenCSD headers are not part of the repository. The enumerations keep the enumerators
  the binding names; every enumerator it does not name is \<open>\<dots>_OTHER n\<close>.
\<close>

datatype ocsd_gen_trc_elem_t =
    OCSD_GEN_TRC_ELEM_INSTR_RANGE
  | OCSD_GEN_TRC_ELEM_TRACE_ON
  | OCSD_GEN_TRC_ELEM_TRACE_OFF
  | OCSD_GEN_TRC_ELEM_EXCEPTION
  | OCSD_GEN_TRC_ELEM_EXCEPTION_RET
  | OCSD_GEN_TRC_ELEM_OTHER nat

datatype ocsd_instr_type =
    OCSD_INSTR_BR
  | OCSD_INSTR_BR_INDIRECT
  | OCSD_INSTR_OTHER nat

text \<open>The fields of \<^verbatim>\<open>ocsd_generic_trace_elem\<close> that the callback reads.\<close>

record ocsd_generic_trace_elem =
  elem_type :: ocsd_gen_trc_elem_t
  last_instr_type :: ocsd_instr_type
  st_addr :: "64 word"
  en_addr :: "64 word"
  elem_timestamp :: "64 word"
  elem_exception_number :: "32 word"
  context_ctxt_id :: "32 word"

datatype ocsd_datapath_resp_t = OCSD_RESP_CONT | OCSD_RESP_FATAL_SYS_ERR

datatype ocsd_err_t =
    OCSD_OK
  | OCSD_ERR_UNSUPP_DECODE_PKT
  | OCSD_ERR_FLUSH_COMPLETE
  | OCSD_ERR_OTHER nat

datatype ocsd_datapath_op_t = OCSD_OP_DATA | OCSD_OP_FLUSH

datatype ocsd_arch_version = CS_ARCH_V7 | CS_ARCH_V8

datatype ocsd_core_profile = profile_CortexA

datatype decoder_name =
    OCSD_BUILTIN_DCD_ETMV3
  | OCSD_BUILTIN_DCD_ETMV4I
  | OCSD_BUILTIN_DCD_ETE

text \<open>
  The configuration blocks, after \<^verbatim>\<open>memset\<close> to zero, with the fields the binding sets:
  \<^verbatim>\<open>ocsd_etmv3_cfg\<close> (reg\_idr, arch\_ver, core\_prof) and \<^verbatim>\<open>ocsd_etmv4_cfg\<close>
  (reg\_idr0, reg\_idr1, reg\_idr2, reg\_idr8, reg\_configr, arch\_ver, core\_prof).
\<close>

datatype decoder_cfg =
    Etmv3_cfg "32 word" ocsd_arch_version ocsd_core_profile
  | Etmv4_cfg "32 word" "32 word" "32 word" "32 word" "32 word" ocsd_arch_version
      ocsd_core_profile

text \<open>
  Modelled from the spec: the engine instance behind the decode-tree handle. The engine is an
  external collaborator; what this layer can observe of it is the history of the calls made on
  the handle, each with the status the engine answered. A mapping is registered when the
  engine accepts the call that registers it.
\<close>

datatype ocsd_call =
    Set_gen_elem_outfn
  | Create_decoder decoder_name decoder_cfg ocsd_err_t
  | Add_named_mem_acc "64 word" "64 word" string "64 word" ocsd_err_t
  | Process_data ocsd_datapath_op_t "64 word" "32 word" "8 word list" ocsd_err_t

datatype dcd_tree_handle_t = C_API_INVALID_TREE_HANDLE | Dcd_tree "ocsd_call list"

fun tree_calls :: "dcd_tree_handle_t \<Rightarrow> ocsd_call list" where
  "tree_calls C_API_INVALID_TREE_HANDLE = []"
| "tree_calls (Dcd_tree cs) = cs"

fun tree_log :: "dcd_tree_handle_t \<Rightarrow> ocsd_call \<Rightarrow> dcd_tree_handle_t" where
  "tree_log C_API_INVALID_TREE_HANDLE c = C_API_INVALID_TREE_HANDLE"
| "tree_log (Dcd_tree cs) c = Dcd_tree (cs @ [c])"

record memory_image =
  image_path :: string
  image_start :: "64 word"
  image_end :: "64 word"
  image_offset :: "64 word"

fun registered_images :: "ocsd_call list \<Rightarrow> memory_image list" where
  "registered_images [] = []"
| "registered_images (Add_named_mem_acc st en path off OCSD_OK # cs) =
     \<lparr>image_path = path, image_start = st, image_end = en, image_offset = off\<rparr>
       # registered_images cs"
| "registered_images (c # cs) = registered_images cs"

text \<open>
  What the engine answers to a call: the status, and the text \<^verbatim>\<open>ocsd_err_str\<close> gives for
  it. For \<^verbatim>\<open>ocsd_dt_process_data\<close> also the elements it delivers to the output function
  during the call, in order, each with what the heap answers should the push of its event
  have to grow the buffer, and the byte count it stores through \<^verbatim>\<open>&bytes_used\<close>.
\<close>

record engine_reply =
  reply_err :: ocsd_err_t
  reply_err_str :: string

record process_reply = engine_reply +
  emitted :: "(ocsd_generic_trace_elem \<times> heap_reply) list"
  reply_bytes_used :: "32 word"

section \<open>The session (struct mtrace\_opencsd\_decoder)\<close>

text \<open>
  \<open>event_buf\<close> holds the cells of the allocated block, so its length is the number of cells
  the block has room for. \<open>size_t\<close> values are naturals below \<open>2 ^ 64\<close>; \<open>error_flag\<close> is a C int.
\<close>

record mtrace_opencsd_decoder =
  dcd_tree :: dcd_tree_handle_t
  event_buf :: "mtrace_cs_event_t list"
  event_buf_cap :: nat
  event_buf_head :: nat
  event_buf_tail :: nat
  error_flag :: int
  error_msg :: string

section \<open>size\_t arithmetic and the C library\<close>

definition SIZE_MOD :: nat where
  "SIZE_MOD = 2 ^ 64"

definition PTRDIFF_MAX :: nat where
  "PTRDIFF_MAX = 2 ^ 63 - 1"

text \<open>\<^verbatim>\<open>sizeof(mtrace_cs_event_t)\<close> on an LP64 target: 4 + 4 (padding) + 3 * 8 + 4 + 4.\<close>

definition sizeof_event :: nat where
  "sizeof_event = 40"

definition sz_add :: "nat \<Rightarrow> nat \<Rightarrow> nat" where
  "sz_add a b = (a + b) mod SIZE_MOD"

definition sz_sub :: "nat \<Rightarrow> nat \<Rightarrow> nat" where
  "sz_sub a b = (a + SIZE_MOD - b mod SIZE_MOD) mod SIZE_MOD"

definition sz_mul :: "nat \<Rightarrow> nat \<Rightarrow> nat" where
  "sz_mul a b = (a * b) mod SIZE_MOD"

text \<open>
  \<^verbatim>\<open>malloc\<close> and \<^verbatim>\<open>realloc\<close> of a block of events, with the size in bytes. The C library
  never returns an object of more than \<open>PTRDIFF_MAX\<close> bytes. A failed \<^verbatim>\<open>realloc\<close> leaves the
  old block as it was (the caller keeps its list).
\<close>

definition malloc :: "heap_reply \<Rightarrow> nat \<Rightarrow> mtrace_cs_event_t list option" where
  "malloc heap bytes =
     (case heap of
        ENOMEM \<Rightarrow> None
      | Granted junk \<Rightarrow>
          if PTRDIFF_MAX < bytes then None
          else Some (replicate (bytes div sizeof_event) junk))"

definition realloc ::
  "heap_reply \<Rightarrow> mtrace_cs_event_t list \<Rightarrow> nat \<Rightarrow> mtrace_cs_event_t list option" where
  "realloc heap buf bytes =
     (case heap of
        ENOMEM \<Rightarrow> None
      | Granted junk \<Rightarrow>
          if PTRDIFF_MAX < bytes then None
          else Some (take (bytes div sizeof_event) buf
                     @ replicate (bytes div sizeof_event - length buf) junk))"

text \<open>
  \<^verbatim>\<open>memmove(buf + dst, buf + src, bytes)\<close> inside one block of events: the cells from \<open>src\<close>
  on are copied to the cells from \<open>dst\<close> on.
\<close>

definition memmove ::
  "mtrace_cs_event_t list \<Rightarrow> nat \<Rightarrow> nat \<Rightarrow> nat \<Rightarrow> mtrace_cs_event_t list" where
  "memmove buf dst src bytes =
     (let n = bytes div sizeof_event
      in take dst buf @ take n (drop src buf) @ drop (dst + n) buf)"

text \<open>\<^verbatim>\<open>snprintf(dec->error_msg, sizeof(dec->error_msg), ...)\<close>: at most 255 characters are kept.\<close>

definition snprintf_error_msg :: "string \<Rightarrow> string" where
  "snprintf_error_msg s = take 255 s"

definition digit_char :: "nat \<Rightarrow> char" where
  "digit_char n = ''0123456789'' ! n"

text \<open>The conversion \<^verbatim>\<open>%llu\<close>.\<close>

fun fmt_llu :: "nat \<Rightarrow> string" where
  "fmt_llu n = (if n < 10 then [digit_char n] else fmt_llu (n div 10) @ [digit_char (n mod 10)])"

declare fmt_llu.simps [simp del]

section \<open>Event ring-buffer helpers\<close>

text \<open>
  \<^verbatim>\<open>event_buf_push\<close>: the pair is the returned int and the session after the call.
\<close>

definition event_buf_push ::
  "heap_reply \<Rightarrow> mtrace_opencsd_decoder \<Rightarrow> mtrace_cs_event_t \<Rightarrow> int \<times> mtrace_opencsd_decoder" where
  "event_buf_push heap dec ev =
     (let next_head = sz_add (event_buf_head dec) 1 mod event_buf_cap dec in
      if next_head = event_buf_tail dec then
        (let new_cap = sz_mul (event_buf_cap dec) 2 in
         case realloc heap (event_buf dec) (sz_mul new_cap sizeof_event) of
           None \<Rightarrow> (- 1, dec)
         | Some new_buf \<Rightarrow>
             (let dec1 =
                (if event_buf_head dec < event_buf_tail dec then
                   (let old_tail_len = sz_sub (event_buf_cap dec) (event_buf_tail dec) in
                    dec\<lparr>event_buf :=
                          memmove new_buf (sz_sub new_cap old_tail_len) (event_buf_tail dec)
                            (sz_mul old_tail_len sizeof_event),
                        event_buf_tail := sz_sub new_cap old_tail_len\<rparr>)
                 else dec\<lparr>event_buf := new_buf\<rparr>);
                dec2 = dec1\<lparr>event_buf_cap := new_cap\<rparr>;
                next_head2 = sz_add (event_buf_head dec2) 1 mod event_buf_cap dec2
              in (0, dec2\<lparr>event_buf := (event_buf dec2)[event_buf_head dec2 := ev],
                          event_buf_head := next_head2\<rparr>)))
      else (0, dec\<lparr>event_buf := (event_buf dec)[event_buf_head dec := ev],
                   event_buf_head := next_head\<rparr>))"

text \<open>
  \<^verbatim>\<open>event_buf_pop\<close>: \<open>None\<close> is the return value 0 (nothing is written to \<^verbatim>\<open>*out\<close>),
  \<open>Some e\<close> is the return value 1 with \<open>e\<close> written to \<^verbatim>\<open>*out\<close>.
\<close>

definition event_buf_pop ::
  "mtrace_opencsd_decoder \<Rightarrow> mtrace_cs_event_t option \<times> mtrace_opencsd_decoder" where
  "event_buf_pop dec =
     (if event_buf_head dec = event_buf_tail dec then (None, dec)
      else (Some (event_buf dec ! event_buf_tail dec),
            dec\<lparr>event_buf_tail := sz_add (event_buf_tail dec) 1 mod event_buf_cap dec\<rparr>))"

text \<open>
  The states a session's queue can be in: the block has \<open>event_buf_cap\<close> cells, the indices
  are inside it, and the block is one the C library can have returned.
\<close>

definition wf_queue :: "mtrace_opencsd_decoder \<Rightarrow> bool" where
  "wf_queue dec \<longleftrightarrow>
     0 < event_buf_cap dec \<and> length (event_buf dec) = event_buf_cap dec \<and>
     event_buf_head dec < event_buf_cap dec \<and> event_buf_tail dec < event_buf_cap dec \<and>
     event_buf_cap dec * sizeof_event \<le> PTRDIFF_MAX"

text \<open>The live region, read from \<open>event_buf_tail\<close> to \<open>event_buf_head\<close>, around the end if it wraps.\<close>

definition queue_contents :: "mtrace_opencsd_decoder \<Rightarrow> mtrace_cs_event_t list" where
  "queue_contents dec =
     (if event_buf_tail dec \<le> event_buf_head dec
      then take (event_buf_head dec - event_buf_tail dec) (drop (event_buf_tail dec) (event_buf dec))
      else drop (event_buf_tail dec) (event_buf dec) @ take (event_buf_head dec) (event_buf dec))"

definition queue_full :: "mtrace_opencsd_decoder \<Rightarrow> bool" where
  "queue_full dec \<longleftrightarrow>
     sz_add (event_buf_head dec) 1 mod event_buf_cap dec = event_buf_tail dec"

section \<open>OpenCSD generic element callback\<close>

text \<open>
  \<^verbatim>\<open>gen_elem_callback\<close>, with \<open>p_context\<close> the session; \<open>index_sop\<close> and \<open>trc_chan_id\<close> are
  not used. The inner \<open>case\<close> is the \<^verbatim>\<open>switch\<close>: \<open>None\<close> is the \<^verbatim>\<open>default\<close> branch, which
  returns at once. The cast \<^verbatim>\<open>(int)elem->context.ctxt_id\<close> keeps the 32 bits.
\<close>

definition gen_elem_callback ::
  "heap_reply \<Rightarrow> mtrace_opencsd_decoder \<Rightarrow> ocsd_generic_trace_elem
     \<Rightarrow> ocsd_datapath_resp_t \<times> mtrace_opencsd_decoder" where
  "gen_elem_callback heap dec elem =
     (let ev = zeroed_event\<lparr>timestamp := elem_timestamp elem\<rparr> in
      case
        (case elem_type elem of
           OCSD_GEN_TRC_ELEM_INSTR_RANGE \<Rightarrow>
             Some (ev\<lparr>kind :=
                        (if last_instr_type elem = OCSD_INSTR_BR_INDIRECT
                         then MTRACE_CS_EVENT_RETURN
                         else if last_instr_type elem = OCSD_INSTR_BR
                         then MTRACE_CS_EVENT_CALL
                         else MTRACE_CS_EVENT_INSTRUCTION_RANGE),
                      from_addr := st_addr elem,
                      to_addr := en_addr elem,
                      cpu := context_ctxt_id elem\<rparr>)
         | OCSD_GEN_TRC_ELEM_TRACE_ON \<Rightarrow>
             Some (ev\<lparr>kind := MTRACE_CS_EVENT_TRACE_ON, from_addr := st_addr elem\<rparr>)
         | OCSD_GEN_TRC_ELEM_TRACE_OFF \<Rightarrow>
             Some (ev\<lparr>kind := MTRACE_CS_EVENT_TRACE_OFF, from_addr := st_addr elem\<rparr>)
         | OCSD_GEN_TRC_ELEM_EXCEPTION \<Rightarrow>
             Some (ev\<lparr>kind := MTRACE_CS_EVENT_EXCEPTION, from_addr := st_addr elem,
                      exception_number := elem_exception_number elem\<rparr>)
         | OCSD_GEN_TRC_ELEM_EXCEPTION_RET \<Rightarrow>
             Some (ev\<lparr>kind := MTRACE_CS_EVENT_EXCEPTION_RET, from_addr := st_addr elem\<rparr>)
         | OCSD_GEN_TRC_ELEM_OTHER _ \<Rightarrow> None)
      of
        None \<Rightarrow> (OCSD_RESP_CONT, dec)
      | Some ev1 \<Rightarrow>
          (case event_buf_push heap dec ev1 of
             (rc, dec1) \<Rightarrow>
               if rc \<noteq> 0
               then (OCSD_RESP_FATAL_SYS_ERR,
                     dec1\<lparr>error_msg :=
                            snprintf_error_msg ''opencsd: event buffer allocation failed'',
                          error_flag := 1\<rparr>)
               else (OCSD_RESP_CONT, dec1)))"

section \<open>The engine's calls\<close>

text \<open>
  Modelled from the spec: the engine invokes the output function synchronously, once for each
  element it delivers, inside the call that feeds or flushes it. Whether it goes on after a
  fatal response is the engine's own business: \<open>emitted\<close> lists the elements it does deliver.
\<close>

fun deliver ::
  "mtrace_opencsd_decoder \<Rightarrow> (ocsd_generic_trace_elem \<times> heap_reply) list
     \<Rightarrow> mtrace_opencsd_decoder" where
  "deliver dec [] = dec"
| "deliver dec ((elem, heap) # es) = deliver (snd (gen_elem_callback heap dec elem)) es"

text \<open>
  Modelled from the spec: \<^verbatim>\<open>ocsd_dt_process_data\<close>. The call is recorded on the handle, the
  elements are delivered, and the engine's status and byte count are returned.
\<close>

definition ocsd_dt_process_data ::
  "process_reply \<Rightarrow> mtrace_opencsd_decoder \<Rightarrow> ocsd_datapath_op_t \<Rightarrow> 64 word \<Rightarrow> 32 word
     \<Rightarrow> 8 word list \<Rightarrow> ocsd_err_t \<times> 32 word \<times> mtrace_opencsd_decoder" where
  "ocsd_dt_process_data reply dec op index data_size data =
     (reply_err reply, reply_bytes_used reply,
      deliver
        (dec\<lparr>dcd_tree :=
               tree_log (dcd_tree dec) (Process_data op index data_size data (reply_err reply))\<rparr>)
        (emitted reply))"

text \<open>Modelled from the spec: \<^verbatim>\<open>ocsd_dt_add_named_mem_acc\<close>, recorded with the engine's status.\<close>

definition ocsd_dt_add_named_mem_acc ::
  "engine_reply \<Rightarrow> dcd_tree_handle_t \<Rightarrow> 64 word \<Rightarrow> 64 word \<Rightarrow> string \<Rightarrow> 64 word
     \<Rightarrow> ocsd_err_t \<times> dcd_tree_handle_t" where
  "ocsd_dt_add_named_mem_acc reply tree st_address en_address filepath file_offset =
     (reply_err reply,
      tree_log tree (Add_named_mem_acc st_address en_address filepath file_offset (reply_err reply)))"

text \<open>Modelled from the spec: \<^verbatim>\<open>ocsd_create_dcd_tree\<close> gives a fresh tree or the invalid handle.\<close>

definition ocsd_create_dcd_tree :: "bool \<Rightarrow> dcd_tree_handle_t" where
  "ocsd_create_dcd_tree ok = (if ok then Dcd_tree [] else C_API_INVALID_TREE_HANDLE)"

section \<open>Public API\<close>

text \<open>
  What the environment answers during \<^verbatim>\<open>mtrace_opencsd_create\<close>: whether \<^verbatim>\<open>calloc\<close> returns
  a block, the heap's answer to the \<^verbatim>\<open>malloc\<close> of the buffer, whether the engine creates the
  decode tree, and its answer to \<^verbatim>\<open>ocsd_dt_create_decoder\<close>.
\<close>

record create_env =
  calloc_ok :: bool
  buf_heap :: heap_reply
  tree_ok :: bool
  decoder_reply :: engine_reply

text \<open>
  What a call releases: the engine's decode tree (\<^verbatim>\<open>ocsd_destroy_dcd_tree\<close>), the event buffer
  (\<^verbatim>\<open>free(dec->event_buf)\<close>), the session (\<^verbatim>\<open>free(dec)\<close>).
\<close>

datatype released = Destroyed_dcd_tree | Freed_event_buf | Freed_decoder

text \<open>
  \<^verbatim>\<open>mtrace_opencsd_create\<close>: the pair is what the call frees before it returns, in order,
  and the returned pointer, where \<open>None\<close> is \<^verbatim>\<open>NULL\<close>.
\<close>

definition mtrace_opencsd_create ::
  "create_env \<Rightarrow> int \<Rightarrow> 8 word \<Rightarrow> int
     \<Rightarrow> released list \<times> mtrace_opencsd_decoder option" where
  "mtrace_opencsd_create env protocol trace_id arch_version =
     (if \<not> calloc_ok env then ([], None)
      else
        (let dec0 = \<lparr>dcd_tree = C_API_INVALID_TREE_HANDLE, event_buf = [], event_buf_cap = 0,
                      event_buf_head = 0, event_buf_tail = 0, error_flag = 0, error_msg = []\<rparr>;
             dec1 = dec0\<lparr>event_buf_cap := 256\<rparr>
         in case malloc (buf_heap env) (sz_mul (event_buf_cap dec1) sizeof_event) of
              None \<Rightarrow> ([Freed_decoder], None)
            | Some buf \<Rightarrow>
                (let dec2 = dec1\<lparr>event_buf := buf, event_buf_head := 0, event_buf_tail := 0\<rparr>;
                     dec3 = dec2\<lparr>dcd_tree := ocsd_create_dcd_tree (tree_ok env)\<rparr>
                 in if dcd_tree dec3 = C_API_INVALID_TREE_HANDLE
                    then ([Freed_event_buf, Freed_decoder], None)
                    else
                      (let dec4 = dec3\<lparr>dcd_tree := tree_log (dcd_tree dec3) Set_gen_elem_outfn\<rparr>;
                           (name, cfg) =
                             (if arch_version = 3
                              then (OCSD_BUILTIN_DCD_ETMV3, Etmv3_cfg 0 CS_ARCH_V7 profile_CortexA)
                              else
                                (if arch_version = 5 then OCSD_BUILTIN_DCD_ETE
                                 else OCSD_BUILTIN_DCD_ETMV4I,
                                 Etmv4_cfg 0x28000ea1 0x4100f403 0x00000488 0 0x000000c1
                                   (if arch_version = 5 then CS_ARCH_V8 else CS_ARCH_V8)
                                   profile_CortexA));
                           err = reply_err (decoder_reply env);
                           dec5 = dec4\<lparr>dcd_tree :=
                                        tree_log (dcd_tree dec4) (Create_decoder name cfg err)\<rparr>
                       in ([],
                           Some
                             (if err \<noteq> OCSD_OK
                              then dec5\<lparr>error_msg :=
                                          snprintf_error_msg
                                            (''opencsd: ocsd_dt_create_decoder failed: ''
                                             @ reply_err_str (decoder_reply env)),
                                        error_flag := 1\<rparr>
                              else dec5))))))"

text \<open>
  \<^verbatim>\<open>mtrace_opencsd_add_image\<close>: the returned int and the session after the call
  (\<open>size_bytes\<close> is the parameter \<^verbatim>\<open>size\<close>).
\<close>

definition mtrace_opencsd_add_image ::
  "engine_reply \<Rightarrow> mtrace_opencsd_decoder \<Rightarrow> string \<Rightarrow> 64 word \<Rightarrow> 64 word \<Rightarrow> 64 word
     \<Rightarrow> int \<times> mtrace_opencsd_decoder" where
  "mtrace_opencsd_add_image reply dec filename load_address offset size_bytes =
     (case ocsd_dt_add_named_mem_acc reply (dcd_tree dec) load_address
             (load_address + size_bytes - 1) filename offset of
        (err, tree) \<Rightarrow>
          if err \<noteq> OCSD_OK
          then (- 1, dec\<lparr>dcd_tree := tree,
                         error_msg :=
                           snprintf_error_msg
                             (''opencsd: add_named_mem_acc failed for '' @ filename @ '': ''
                              @ reply_err_str reply)\<rparr>)
          else (0, dec\<lparr>dcd_tree := tree\<rparr>))"

text \<open>
  \<^verbatim>\<open>mtrace_opencsd_decode\<close>. \<open>data_len\<close> is a \<open>size_t\<close>, cast to \<open>uint32_t\<close> for the engine;
  the result is \<open>- 1\<close> or \<^verbatim>\<open>(int)bytes_used\<close>.
\<close>

definition mtrace_opencsd_decode ::
  "process_reply \<Rightarrow> mtrace_opencsd_decoder \<Rightarrow> 8 word list \<Rightarrow> nat \<Rightarrow> 64 word
     \<Rightarrow> int \<times> mtrace_opencsd_decoder" where
  "mtrace_opencsd_decode reply dec data data_len data_index =
     (if error_flag dec \<noteq> 0 then (- 1, dec)
      else
        (case ocsd_dt_process_data reply dec OCSD_OP_DATA data_index (of_nat data_len) data of
           (err, bytes_used, dec1) \<Rightarrow>
             if err \<noteq> OCSD_OK \<and> err \<noteq> OCSD_ERR_UNSUPP_DECODE_PKT
             then (- 1,
                   dec1\<lparr>error_msg :=
                          snprintf_error_msg
                            (''opencsd: decode error at index '' @ fmt_llu (unat data_index)
                             @ '': '' @ reply_err_str reply),
                        error_flag := 1\<rparr>)
             else (sint bytes_used, dec1)))"

text \<open>\<^verbatim>\<open>mtrace_opencsd_flush\<close>.\<close>

definition mtrace_opencsd_flush ::
  "process_reply \<Rightarrow> mtrace_opencsd_decoder \<Rightarrow> int \<times> mtrace_opencsd_decoder" where
  "mtrace_opencsd_flush reply dec =
     (if error_flag dec \<noteq> 0 then (- 1, dec)
      else
        (case ocsd_dt_process_data reply dec OCSD_OP_FLUSH 0 0 [] of
           (err, bytes_used, dec1) \<Rightarrow>
             (if err = OCSD_OK \<or> err = OCSD_ERR_FLUSH_COMPLETE then 0 else - 1, dec1)))"

definition mtrace_opencsd_next_event ::
  "mtrace_opencsd_decoder \<Rightarrow> mtrace_cs_event_t option \<times> mtrace_opencsd_decoder" where
  "mtrace_opencsd_next_event dec = event_buf_pop dec"

definition mtrace_opencsd_has_error :: "mtrace_opencsd_decoder \<Rightarrow> int" where
  "mtrace_opencsd_has_error dec = error_flag dec"

definition mtrace_opencsd_error_msg :: "mtrace_opencsd_decoder \<Rightarrow> string" where
  "mtrace_opencsd_error_msg dec = error_msg dec"

text \<open>
  \<^verbatim>\<open>mtrace_opencsd_destroy\<close>: the argument \<open>None\<close> is the null pointer; the result lists what
  the call releases, in order.
\<close>

definition mtrace_opencsd_destroy :: "mtrace_opencsd_decoder option \<Rightarrow> released list" where
  "mtrace_opencsd_destroy d =
     (case d of
        None \<Rightarrow> []
      | Some dec \<Rightarrow>
          (if dcd_tree dec \<noteq> C_API_INVALID_TREE_HANDLE then [Destroyed_dcd_tree] else [])
          @ [Freed_event_buf, Freed_decoder])"

section \<open>Sequences of calls\<close>

text \<open>A sequence of pushes and pops on the queue, and what each call returns.\<close>

datatype queue_op = Push mtrace_cs_event_t heap_reply | Pop

datatype queue_result = Push_returned int | Pop_returned "mtrace_cs_event_t option"

fun run_queue :: "mtrace_opencsd_decoder \<Rightarrow> queue_op list \<Rightarrow> queue_result list" where
  "run_queue dec [] = []"
| "run_queue dec (Push ev heap # ops) =
     (case event_buf_push heap dec ev of
        (rc, dec1) \<Rightarrow> Push_returned rc # run_queue dec1 ops)"
| "run_queue dec (Pop # ops) =
     (case event_buf_pop dec of
        (out, dec1) \<Rightarrow> Pop_returned out # run_queue dec1 ops)"

fun pushed_values :: "queue_op list \<Rightarrow> mtrace_cs_event_t list" where
  "pushed_values [] = []"
| "pushed_values (Push ev heap # ops) = ev # pushed_values ops"
| "pushed_values (Pop # ops) = pushed_values ops"

fun popped_values :: "queue_result list \<Rightarrow> mtrace_cs_event_t option list" where
  "popped_values [] = []"
| "popped_values (Pop_returned out # rs) = out # popped_values rs"
| "popped_values (Push_returned rc # rs) = popped_values rs"

fun push_codes :: "queue_result list \<Rightarrow> int list" where
  "push_codes [] = []"
| "push_codes (Push_returned rc # rs) = rc # push_codes rs"
| "push_codes (Pop_returned out # rs) = push_codes rs"

fun heap_grants :: "queue_op \<Rightarrow> bool" where
  "heap_grants (Push ev ENOMEM) = False"
| "heap_grants _ = True"

text \<open>
  Pops never outnumber pushes so far, for a queue that holds \<open>n\<close> events at the start.
\<close>

fun pops_within :: "nat \<Rightarrow> queue_op list \<Rightarrow> bool" where
  "pops_within n [] = True"
| "pops_within n (Push ev heap # ops) = pops_within (Suc n) ops"
| "pops_within 0 (Pop # ops) = False"
| "pops_within (Suc n) (Pop # ops) = pops_within n ops"

text \<open>The first \<open>n\<close> answers of \<^verbatim>\<open>mtrace_opencsd_next_event\<close> called again and again.\<close>

fun next_events :: "nat \<Rightarrow> mtrace_opencsd_decoder \<Rightarrow> mtrace_cs_event_t option list" where
  "next_events 0 dec = []"
| "next_events (Suc n) dec =
     (case mtrace_opencsd_next_event dec of (out, dec1) \<Rightarrow> out # next_events n dec1)"

text \<open>The calls a consumer can make on a live session, each with the environment's answers.\<close>

datatype api_call =
    Add_image engine_reply string "64 word" "64 word" "64 word"
  | Decode process_reply "8 word list" nat "64 word"
  | Flush process_reply
  | Next_event
  | Has_error
  | Error_msg

fun api_step :: "mtrace_opencsd_decoder \<Rightarrow> api_call \<Rightarrow> mtrace_opencsd_decoder" where
  "api_step dec (Add_image reply filename load_address offset size_bytes) =
     snd (mtrace_opencsd_add_image reply dec filename load_address offset size_bytes)"
| "api_step dec (Decode reply data data_len data_index) =
     snd (mtrace_opencsd_decode reply dec data data_len data_index)"
| "api_step dec (Flush reply) = snd (mtrace_opencsd_flush reply dec)"
| "api_step dec Next_event = snd (mtrace_opencsd_next_event dec)"
| "api_step dec Has_error = dec"
| "api_step dec Error_msg = dec"

fun api_run :: "mtrace_opencsd_decoder \<Rightarrow> api_call list \<Rightarrow> mtrace_opencsd_decoder" where
  "api_run dec [] = dec"
| "api_run dec (c # cs) = api_run (api_step dec c) cs"

fun pop_count :: "queue_op list \<Rightarrow> nat" where
  "pop_count [] = 0"
| "pop_count (Push ev heap # ops) = pop_count ops"
| "pop_count (Pop # ops) = Suc (pop_count ops)"

section \<open>Notions used to state the properties\<close>

text \<open>
  A push is refused when the buffer is full and the reallocation that would grow it fails.
\<close>

definition push_refused :: "heap_reply \<Rightarrow> mtrace_opencsd_decoder \<Rightarrow> bool" where
  "push_refused heap dec \<longleftrightarrow>
     queue_full dec \<and>
     realloc heap (event_buf dec) (sz_mul (sz_mul (event_buf_cap dec) 2) sizeof_event) = None"

text \<open>The element kinds that reach the \<^verbatim>\<open>default\<close> branch of the callback's switch.\<close>

fun dropped_kind :: "ocsd_gen_trc_elem_t \<Rightarrow> bool" where
  "dropped_kind (OCSD_GEN_TRC_ELEM_OTHER n) = True"
| "dropped_kind _ = False"

text \<open>
  The callback, called for \<open>elem\<close>, tells the engine to continue and leaves the session with
  exactly the event \<open>ev\<close> appended to its queue, and nothing else of the session changed.
\<close>

definition callback_yields ::
  "heap_reply \<Rightarrow> mtrace_opencsd_decoder \<Rightarrow> ocsd_generic_trace_elem \<Rightarrow> mtrace_cs_event_t
     \<Rightarrow> bool" where
  "callback_yields heap dec elem ev \<longleftrightarrow>
     fst (gen_elem_callback heap dec elem) = OCSD_RESP_CONT \<and>
     queue_contents (snd (gen_elem_callback heap dec elem)) = queue_contents dec @ [ev] \<and>
     wf_queue (snd (gen_elem_callback heap dec elem)) \<and>
     error_flag (snd (gen_elem_callback heap dec elem)) = error_flag dec \<and>
     error_msg (snd (gen_elem_callback heap dec elem)) = error_msg dec \<and>
     dcd_tree (snd (gen_elem_callback heap dec elem)) = dcd_tree dec"

section \<open>Concrete sessions and inputs\<close>

definition ev_at :: "64 word \<Rightarrow> mtrace_cs_event_t" where
  "ev_at a = zeroed_event\<lparr>kind := MTRACE_CS_EVENT_CALL, from_addr := a\<rparr>"

text \<open>An empty queue of four cells whose indices stand at the last cell.\<close>

definition small_queue :: mtrace_opencsd_decoder where
  "small_queue =
     \<lparr>dcd_tree = Dcd_tree [],
      event_buf = [zeroed_event, zeroed_event, zeroed_event, zeroed_event],
      event_buf_cap = 4, event_buf_head = 3, event_buf_tail = 3,
      error_flag = 0, error_msg = []\<rparr>"

text \<open>
  Four pushes (the fourth grows the wrapped buffer to eight cells), a pop, five pushes (the
  last grows the buffer to sixteen cells), eight pops.
\<close>

definition burst :: "queue_op list" where
  "burst =
     [Push (ev_at 1) (Granted zeroed_event), Push (ev_at 2) (Granted zeroed_event),
      Push (ev_at 3) (Granted zeroed_event), Push (ev_at 4) (Granted zeroed_event),
      Pop,
      Push (ev_at 5) (Granted zeroed_event), Push (ev_at 6) (Granted zeroed_event),
      Push (ev_at 7) (Granted zeroed_event), Push (ev_at 8) (Granted zeroed_event),
      Push (ev_at 9) (Granted zeroed_event),
      Pop, Pop, Pop, Pop, Pop, Pop, Pop, Pop]"

text \<open>A full queue of four cells whose live region wraps: it holds events 1, 2, 3.\<close>

definition full_queue :: mtrace_opencsd_decoder where
  "full_queue =
     \<lparr>dcd_tree = Dcd_tree [],
      event_buf = [ev_at 2, ev_at 3, zeroed_event, ev_at 1],
      event_buf_cap = 4, event_buf_head = 2, event_buf_tail = 3,
      error_flag = 0, error_msg = []\<rparr>"

definition ok_reply :: engine_reply where
  "ok_reply = \<lparr>reply_err = OCSD_OK, reply_err_str = []\<rparr>"

definition failed_reply :: engine_reply where
  "failed_reply = \<lparr>reply_err = OCSD_ERR_OTHER 1, reply_err_str = ''General failure''\<rparr>"

definition fatal_process_reply :: process_reply where
  "fatal_process_reply =
     \<lparr>reply_err = OCSD_ERR_OTHER 1, reply_err_str = ''General failure'', emitted = [],
      reply_bytes_used = 0\<rparr>"

definition ok_env :: create_env where
  "ok_env =
     \<lparr>calloc_ok = True, buf_heap = Granted zeroed_event, tree_ok = True,
      decoder_reply = ok_reply\<rparr>"

definition no_tree_env :: create_env where
  "no_tree_env =
     \<lparr>calloc_ok = True, buf_heap = Granted zeroed_event, tree_ok = False,
      decoder_reply = ok_reply\<rparr>"

definition no_decoder_env :: create_env where
  "no_decoder_env =
     \<lparr>calloc_ok = True, buf_heap = Granted zeroed_event, tree_ok = True,
      decoder_reply = failed_reply\<rparr>"

text \<open>The session \<^verbatim>\<open>mtrace_opencsd_create(0, 0, 4)\<close> returns when every step succeeds.\<close>

definition fresh_session :: mtrace_opencsd_decoder where
  "fresh_session =
     \<lparr>dcd_tree = Dcd_tree [Set_gen_elem_outfn,
         Create_decoder OCSD_BUILTIN_DCD_ETMV4I
           (Etmv4_cfg 0x28000ea1 0x4100f403 0x00000488 0 0x000000c1 CS_ARCH_V8 profile_CortexA)
           OCSD_OK],
      event_buf = replicate 256 zeroed_event, event_buf_cap = 256,
      event_buf_head = 0, event_buf_tail = 0, error_flag = 0, error_msg = []\<rparr>"

definition errored_session :: mtrace_opencsd_decoder where
  "errored_session =
     fresh_session\<lparr>error_msg := ''opencsd: decode error at index 0: General failure'',
                   error_flag := 1\<rparr>"

definition trace_on_elem :: ocsd_generic_trace_elem where
  "trace_on_elem =
     \<lparr>elem_type = OCSD_GEN_TRC_ELEM_TRACE_ON, last_instr_type = OCSD_INSTR_OTHER 0,
      st_addr = 0x400000, en_addr = 0, elem_timestamp = 0, elem_exception_number = 0,
      context_ctxt_id = 0\<rparr>"

definition indirect_range_elem :: ocsd_generic_trace_elem where
  "indirect_range_elem =
     \<lparr>elem_type = OCSD_GEN_TRC_ELEM_INSTR_RANGE, last_instr_type = OCSD_INSTR_BR_INDIRECT,
      st_addr = 0x1000, en_addr = 0x1010, elem_timestamp = 7, elem_exception_number = 0,
      context_ctxt_id = 3\<rparr>"

definition exception_elem :: ocsd_generic_trace_elem where
  "exception_elem =
     \<lparr>elem_type = OCSD_GEN_TRC_ELEM_EXCEPTION, last_instr_type = OCSD_INSTR_OTHER 0,
      st_addr = 0x2000, en_addr = 0, elem_timestamp = 9, elem_exception_number = 11,
      context_ctxt_id = 3\<rparr>"


text \<open>A decode call during which the engine delivers two elements and then reports a failure.\<close>

definition two_then_fatal :: process_reply where
  "two_then_fatal =
     \<lparr>reply_err = OCSD_ERR_OTHER 1, reply_err_str = ''General failure'',
      emitted = [(indirect_range_elem, ENOMEM), (exception_elem, ENOMEM)],
      reply_bytes_used = 0\<rparr>"


text \<open>
  The four-cell queue after that call has delivered its two events, before the failure is
  latched.
\<close>

definition after_two :: mtrace_opencsd_decoder where
  "after_two =
     \<lparr>dcd_tree = Dcd_tree [Process_data OCSD_OP_DATA 0 0 [] (OCSD_ERR_OTHER 1)],
      event_buf =
        [\<lparr>kind = MTRACE_CS_EVENT_EXCEPTION, timestamp = 9, from_addr = 0x2000, to_addr = 0,
          cpu = 0, exception_number = 11\<rparr>,
         zeroed_event, zeroed_event,
         \<lparr>kind = MTRACE_CS_EVENT_RETURN, timestamp = 7, from_addr = 0x1000, to_addr = 0x1010,
          cpu = 3, exception_number = 0\<rparr>],
      event_buf_cap = 4, event_buf_head = 1, event_buf_tail = 3,
      error_flag = 0, error_msg = []\<rparr>"

section \<open>The ring buffer is a FIFO queue\<close>

subsection \<open>size\_t arithmetic inside a well-formed queue\<close>

lemma sz_add_small: "a + b < SIZE_MOD \<Longrightarrow> sz_add a b = a + b"
  by (simp add: sz_add_def)

lemma sz_mul_small: "a * b < SIZE_MOD \<Longrightarrow> sz_mul a b = a * b"
  by (simp add: sz_mul_def)

lemma sz_sub_small:
  assumes "b \<le> a" "a < SIZE_MOD"
  shows "sz_sub a b = a - b"
proof -
  have b: "b mod SIZE_MOD = b" using assms by simp
  have "a + SIZE_MOD - b = (a - b) + SIZE_MOD" using assms by simp
  then have "(a + SIZE_MOD - b) mod SIZE_MOD = (a - b) mod SIZE_MOD"
    by (simp only: mod_add_self2)
  also have "\<dots> = a - b" using assms by simp
  finally show ?thesis unfolding sz_sub_def b .
qed

lemma wf_cap_bounds:
  assumes "wf_queue dec"
  shows "event_buf_cap dec * 2 < SIZE_MOD"
    and "event_buf_cap dec * 2 * sizeof_event < SIZE_MOD"
    and "event_buf_cap dec < SIZE_MOD"
  using assms by (simp_all add: wf_queue_def SIZE_MOD_def PTRDIFF_MAX_def sizeof_event_def)

lemma wf_next_head:
  assumes "wf_queue dec"
  shows "sz_add (event_buf_head dec) 1 = event_buf_head dec + 1"
    and "sz_add (event_buf_tail dec) 1 = event_buf_tail dec + 1"
  using assms wf_cap_bounds(3)[OF assms] by (simp_all add: wf_queue_def sz_add_small)

lemma wf_new_cap:
  assumes "wf_queue dec"
  shows "sz_mul (event_buf_cap dec) 2 = event_buf_cap dec * 2"
    and "sz_mul (event_buf_cap dec * 2) sizeof_event = event_buf_cap dec * 2 * sizeof_event"
  using wf_cap_bounds[OF assms] by (simp_all add: sz_mul_small)

lemma realloc_double:
  assumes "length buf = c"
  shows "realloc heap buf (c * 2 * sizeof_event) =
    (case heap of ENOMEM \<Rightarrow> None
     | Granted junk \<Rightarrow> if PTRDIFF_MAX < c * 2 * sizeof_event then None else Some (buf @ replicate c junk))"
  using assms by (simp add: realloc_def sizeof_event_def split: heap_reply.splits)

lemma push_not_full:
  assumes "wf_queue dec" "\<not> queue_full dec"
  shows "event_buf_push heap dec ev =
    (0, dec\<lparr>event_buf := (event_buf dec)[event_buf_head dec := ev],
            event_buf_head := (event_buf_head dec + 1) mod event_buf_cap dec\<rparr>)"
  using assms(2) wf_next_head[OF assms(1)]
  by (simp add: event_buf_push_def queue_full_def Let_def)

lemma push_full_refused:
  assumes "queue_full dec"
    "realloc heap (event_buf dec) (sz_mul (sz_mul (event_buf_cap dec) 2) sizeof_event) = None"
  shows "event_buf_push heap dec ev = (- 1, dec)"
  using assms by (simp add: event_buf_push_def queue_full_def Let_def)

lemma push_full_granted_linear:
  assumes "wf_queue dec" "queue_full dec" "event_buf_cap dec * 2 * sizeof_event \<le> PTRDIFF_MAX"
    "event_buf_tail dec \<le> event_buf_head dec"
  shows "event_buf_push (Granted junk) dec ev =
    (0, dec\<lparr>event_buf := (event_buf dec @ replicate (event_buf_cap dec) junk)[event_buf_head dec := ev],
            event_buf_cap := event_buf_cap dec * 2,
            event_buf_head := event_buf_head dec + 1\<rparr>)"
proof -
  have len: "length (event_buf dec) = event_buf_cap dec"
    using assms(1) by (simp add: wf_queue_def)
  have h: "event_buf_head dec + 1 < event_buf_cap dec * 2"
    using assms(1) by (simp add: wf_queue_def)
  show ?thesis
    using assms(2,3,4) wf_next_head[OF assms(1)] wf_new_cap[OF assms(1)] h
    by (simp add: event_buf_push_def queue_full_def Let_def realloc_double[OF len])
qed

lemma push_full_granted_wrapped:
  assumes "wf_queue dec" "queue_full dec" "event_buf_cap dec * 2 * sizeof_event \<le> PTRDIFF_MAX"
    "event_buf_head dec < event_buf_tail dec"
  shows "event_buf_push (Granted junk) dec ev =
    (0, dec\<lparr>event_buf :=
              (take (event_buf_cap dec + event_buf_tail dec)
                 (event_buf dec @ replicate (event_buf_cap dec) junk)
               @ drop (event_buf_tail dec) (event_buf dec))[event_buf_head dec := ev],
            event_buf_tail := event_buf_cap dec + event_buf_tail dec,
            event_buf_cap := event_buf_cap dec * 2,
            event_buf_head := event_buf_head dec + 1\<rparr>)"
proof -
  have len: "length (event_buf dec) = event_buf_cap dec"
    using assms(1) by (simp add: wf_queue_def)
  have t: "event_buf_tail dec < event_buf_cap dec"
    using assms(1) by (simp add: wf_queue_def)
  have h: "event_buf_head dec + 1 < event_buf_cap dec * 2"
    using assms(1) by (simp add: wf_queue_def)
  have otl: "sz_sub (event_buf_cap dec) (event_buf_tail dec) = event_buf_cap dec - event_buf_tail dec"
    using t wf_cap_bounds(3)[OF assms(1)] by (simp add: sz_sub_small)
  have nt: "sz_sub (event_buf_cap dec * 2) (event_buf_cap dec - event_buf_tail dec)
      = event_buf_cap dec + event_buf_tail dec"
    using t wf_cap_bounds(1)[OF assms(1)] by (simp add: sz_sub_small)
  have bytes: "sz_mul (event_buf_cap dec - event_buf_tail dec) sizeof_event
      = (event_buf_cap dec - event_buf_tail dec) * sizeof_event"
  proof -
    have "(event_buf_cap dec - event_buf_tail dec) * sizeof_event
            \<le> event_buf_cap dec * sizeof_event"
      by (simp add: sizeof_event_def)
    then have "(event_buf_cap dec - event_buf_tail dec) * sizeof_event < SIZE_MOD"
      using wf_cap_bounds(2)[OF assms(1)] by (simp add: sizeof_event_def)
    then show ?thesis by (rule sz_mul_small)
  qed
  have mm: "memmove (event_buf dec @ replicate (event_buf_cap dec) junk)
      (event_buf_cap dec + event_buf_tail dec) (event_buf_tail dec)
      ((event_buf_cap dec - event_buf_tail dec) * sizeof_event)
     = take (event_buf_cap dec + event_buf_tail dec)
                 (event_buf dec @ replicate (event_buf_cap dec) junk)
               @ drop (event_buf_tail dec) (event_buf dec)"
    using len t by (simp add: memmove_def sizeof_event_def)
  show ?thesis
    using assms(2,3,4) wf_next_head[OF assms(1)] wf_new_cap[OF assms(1)] h
    by (simp add: event_buf_push_def queue_full_def Let_def realloc_double[OF len] otl nt
        bytes mm)
qed

subsection \<open>What a push and a pop do to the live region\<close>

lemma contents_length:
  assumes "wf_queue dec"
  shows "length (queue_contents dec) =
     (if event_buf_tail dec \<le> event_buf_head dec then event_buf_head dec - event_buf_tail dec
      else event_buf_cap dec - event_buf_tail dec + event_buf_head dec)"
  using assms by (auto simp: queue_contents_def wf_queue_def)

lemma contents_store:
  assumes "wf_queue dec" "\<not> queue_full dec"
  shows "queue_contents (dec\<lparr>event_buf := (event_buf dec)[event_buf_head dec := ev],
            event_buf_head := (event_buf_head dec + 1) mod event_buf_cap dec\<rparr>)
         = queue_contents dec @ [ev]"
proof (cases "event_buf_head dec + 1 = event_buf_cap dec")
  case True
  then have nz: "event_buf_tail dec \<noteq> 0"
    using assms wf_next_head[OF assms(1)] by (auto simp: queue_full_def)
  show ?thesis
    using True nz assms(1)
    by (intro nth_equalityI) (auto simp: queue_contents_def wf_queue_def nth_append nth_list_update)
next
  case False
  then have lt: "event_buf_head dec + 1 < event_buf_cap dec"
    using assms(1) by (simp add: wf_queue_def)
  then have ne: "event_buf_head dec + 1 \<noteq> event_buf_tail dec"
    using assms wf_next_head[OF assms(1)] by (auto simp: queue_full_def)
  show ?thesis
    using lt ne assms(1)
    by (intro nth_equalityI) (auto simp: queue_contents_def wf_queue_def nth_append nth_list_update)
qed

lemma full_linear:
  assumes "wf_queue dec" "queue_full dec" "event_buf_tail dec \<le> event_buf_head dec"
  shows "event_buf_tail dec = 0 \<and> event_buf_head dec + 1 = event_buf_cap dec"
proof -
  have m: "(event_buf_head dec + 1) mod event_buf_cap dec = event_buf_tail dec"
    using assms(2) wf_next_head[OF assms(1)] by (simp add: queue_full_def)
  have "event_buf_head dec + 1 = event_buf_cap dec"
  proof (rule ccontr)
    assume "event_buf_head dec + 1 \<noteq> event_buf_cap dec"
    then have "event_buf_head dec + 1 < event_buf_cap dec"
      using assms(1) by (simp add: wf_queue_def)
    then show False using m assms(3) by simp
  qed
  then show ?thesis using m by simp
qed

lemma full_wrapped:
  assumes "wf_queue dec" "queue_full dec" "event_buf_head dec < event_buf_tail dec"
  shows "event_buf_head dec + 1 = event_buf_tail dec"
proof -
  have m: "(event_buf_head dec + 1) mod event_buf_cap dec = event_buf_tail dec"
    using assms(2) wf_next_head[OF assms(1)] by (simp add: queue_full_def)
  have "event_buf_head dec + 1 < event_buf_cap dec"
    using assms(1,3) by (simp add: wf_queue_def)
  then show ?thesis using m by simp
qed

lemma contents_grow_linear:
  assumes "wf_queue dec" "queue_full dec" "event_buf_tail dec \<le> event_buf_head dec"
  shows "queue_contents (dec\<lparr>event_buf := (event_buf dec @ replicate (event_buf_cap dec) junk)[event_buf_head dec := ev],
            event_buf_cap := event_buf_cap dec * 2,
            event_buf_head := event_buf_head dec + 1\<rparr>)
         = queue_contents dec @ [ev]"
  using full_linear[OF assms] assms(1)
  by (intro nth_equalityI) (auto simp: queue_contents_def wf_queue_def nth_append nth_list_update)

lemma contents_grow_wrapped:
  assumes "wf_queue dec" "queue_full dec" "event_buf_head dec < event_buf_tail dec"
  shows "queue_contents (dec\<lparr>event_buf :=
              (take (event_buf_cap dec + event_buf_tail dec)
                 (event_buf dec @ replicate (event_buf_cap dec) junk)
               @ drop (event_buf_tail dec) (event_buf dec))[event_buf_head dec := ev],
            event_buf_tail := event_buf_cap dec + event_buf_tail dec,
            event_buf_cap := event_buf_cap dec * 2,
            event_buf_head := event_buf_head dec + 1\<rparr>)
         = queue_contents dec @ [ev]"
  using full_wrapped[OF assms] assms(1,3)
  by (intro nth_equalityI) (auto simp: queue_contents_def wf_queue_def nth_append nth_list_update)

lemma push_granted:
  assumes "wf_queue dec"
    and "queue_full dec \<Longrightarrow> event_buf_cap dec * 2 * sizeof_event \<le> PTRDIFF_MAX \<and> heap \<noteq> ENOMEM"
  shows "\<exists>dec'. event_buf_push heap dec ev = (0, dec') \<and> wf_queue dec' \<and>
           queue_contents dec' = queue_contents dec @ [ev] \<and>
           dcd_tree dec' = dcd_tree dec \<and> error_flag dec' = error_flag dec \<and>
           error_msg dec' = error_msg dec"
proof (cases "queue_full dec")
  case False
  have "wf_queue (dec\<lparr>event_buf := (event_buf dec)[event_buf_head dec := ev],
            event_buf_head := (event_buf_head dec + 1) mod event_buf_cap dec\<rparr>)"
    using assms(1) by (simp add: wf_queue_def)
  then show ?thesis
    using push_not_full[OF assms(1) False] contents_store[OF assms(1) False] by simp
next
  case True
  from assms(2)[OF True] obtain junk where
    heap: "heap = Granted junk" and sz: "event_buf_cap dec * 2 * sizeof_event \<le> PTRDIFF_MAX"
    by (cases heap) auto
  show ?thesis
  proof (cases "event_buf_tail dec \<le> event_buf_head dec")
    case lin: True
    have "wf_queue (dec\<lparr>event_buf := (event_buf dec @ replicate (event_buf_cap dec) junk)[event_buf_head dec := ev],
            event_buf_cap := event_buf_cap dec * 2,
            event_buf_head := event_buf_head dec + 1\<rparr>)"
      using assms(1) sz by (simp add: wf_queue_def)
    then show ?thesis
      using push_full_granted_linear[OF assms(1) True sz lin]
        contents_grow_linear[OF assms(1) True lin] heap by simp
  next
    case False
    then have wr: "event_buf_head dec < event_buf_tail dec" by simp
    have "wf_queue (dec\<lparr>event_buf :=
              (take (event_buf_cap dec + event_buf_tail dec)
                 (event_buf dec @ replicate (event_buf_cap dec) junk)
               @ drop (event_buf_tail dec) (event_buf dec))[event_buf_head dec := ev],
            event_buf_tail := event_buf_cap dec + event_buf_tail dec,
            event_buf_cap := event_buf_cap dec * 2,
            event_buf_head := event_buf_head dec + 1\<rparr>)"
      using assms(1) sz by (simp add: wf_queue_def)
    then show ?thesis
      using push_full_granted_wrapped[OF assms(1) True sz wr]
        contents_grow_wrapped[OF assms(1) True wr] heap by simp
  qed
qed

lemma full_length:
  assumes "wf_queue dec" "queue_full dec"
  shows "length (queue_contents dec) + 1 = event_buf_cap dec"
proof (cases "event_buf_tail dec \<le> event_buf_head dec")
  case True
  then show ?thesis
    using full_linear[OF assms True] contents_length[OF assms(1)] by simp
next
  case False
  then have wr: "event_buf_head dec < event_buf_tail dec" by simp
  have t: "event_buf_tail dec < event_buf_cap dec"
    using assms(1) by (simp add: wf_queue_def)
  have "length (queue_contents dec) = event_buf_cap dec - event_buf_tail dec + event_buf_head dec"
    using contents_length[OF assms(1)] wr by simp
  then show ?thesis
    using full_wrapped[OF assms wr] t by arith
qed

lemma pop_empty:
  assumes "wf_queue dec" "queue_contents dec = []"
  shows "event_buf_pop dec = (None, dec)"
proof -
  have "event_buf_head dec = event_buf_tail dec"
    using assms contents_length[OF assms(1)] by (auto simp: wf_queue_def split: if_splits)
  then show ?thesis by (simp add: event_buf_pop_def)
qed

lemma pop_front:
  assumes "wf_queue dec" "queue_contents dec = x # xs"
  shows "\<exists>dec'. event_buf_pop dec = (Some x, dec') \<and> wf_queue dec' \<and> queue_contents dec' = xs \<and>
           dcd_tree dec' = dcd_tree dec \<and> error_flag dec' = error_flag dec \<and>
           error_msg dec' = error_msg dec"
proof -
  have ne: "event_buf_head dec \<noteq> event_buf_tail dec"
    using assms(2) by (auto simp: queue_contents_def)
  have t: "event_buf_tail dec < event_buf_cap dec" "length (event_buf dec) = event_buf_cap dec"
    "event_buf_head dec < event_buf_cap dec"
    using assms(1) by (simp_all add: wf_queue_def)
  have front: "event_buf dec ! event_buf_tail dec = x"
  proof -
    have "queue_contents dec ! 0 = event_buf dec ! event_buf_tail dec"
      using ne t by (auto simp: queue_contents_def nth_append)
    then show ?thesis using assms(2) by simp
  qed
  let ?d = "dec\<lparr>event_buf_tail := (event_buf_tail dec + 1) mod event_buf_cap dec\<rparr>"
  have pop: "event_buf_pop dec = (Some x, ?d)"
    using ne front wf_next_head[OF assms(1)] by (simp add: event_buf_pop_def)
  have wf: "wf_queue ?d" using assms(1) by (simp add: wf_queue_def)
  have "queue_contents dec = x # queue_contents ?d"
  proof (cases "event_buf_tail dec + 1 = event_buf_cap dec")
    case True
    then have idx: "\<And>i. Suc (i + event_buf_tail dec) - event_buf_cap dec = i"
      by arith
    show ?thesis using True ne t front
      by (intro nth_equalityI)
        (auto simp: queue_contents_def nth_append nth_Cons idx split: nat.splits)
  next
    case False
    then have "event_buf_tail dec + 1 < event_buf_cap dec" using t by simp
    then show ?thesis using ne t front
      by (intro nth_equalityI) (auto simp: queue_contents_def nth_append nth_Cons split: nat.splits)
  qed
  then have "queue_contents ?d = xs" using assms(2) by simp
  then show ?thesis using pop wf by simp
qed

lemma not_refused_room:
  assumes "wf_queue dec" "\<not> push_refused heap dec" "queue_full dec"
  shows "event_buf_cap dec * 2 * sizeof_event \<le> PTRDIFF_MAX \<and> heap \<noteq> ENOMEM"
proof -
  have len: "length (event_buf dec) = event_buf_cap dec"
    using assms(1) by (simp add: wf_queue_def)
  have "realloc heap (event_buf dec) (event_buf_cap dec * 2 * sizeof_event) \<noteq> None"
    using assms(2,3) wf_new_cap[OF assms(1)] by (simp add: push_refused_def)
  then show ?thesis
    by (simp add: realloc_double[OF len] split: heap_reply.splits if_splits)
qed

lemma push_accepts:
  assumes "wf_queue dec" "\<not> push_refused heap dec"
  shows "\<exists>dec'. event_buf_push heap dec ev = (0, dec') \<and> wf_queue dec' \<and>
           queue_contents dec' = queue_contents dec @ [ev] \<and>
           dcd_tree dec' = dcd_tree dec \<and> error_flag dec' = error_flag dec \<and>
           error_msg dec' = error_msg dec"
  using push_granted[OF assms(1) not_refused_room[OF assms]] .

lemma push_refuses:
  assumes "push_refused heap dec"
  shows "event_buf_push heap dec ev = (- 1, dec)"
  using assms push_full_refused by (simp add: push_refused_def)

subsection \<open>Sequences of pushes and pops\<close>

text \<open>
  Claim C1. The event queue is strict FIFO across growth. Take any well-formed queue and any
  sequence of pushes and pops in which pops never outnumber the events available so far,
  run while the heap grants every request and the events fit in one C object. Then every push
  returns 0 and the values the pops return are, in order, the events the queue held at the
  start followed by the pushed values: nothing is lost, duplicated or reordered, however
  often the buffer doubles and whether or not the live region wraps when it does. For a queue
  that starts empty the popped values are a prefix of the pushed values, and all of them
  when there are as many pops as pushes.
\<close>

theorem event_queue_fifo:
  assumes "wf_queue dec"
    and "list_all heap_grants ops"
    and "(length (queue_contents dec) + length (pushed_values ops)) * 2 * sizeof_event
           \<le> PTRDIFF_MAX"
    and "pops_within (length (queue_contents dec)) ops"
  shows "push_codes (run_queue dec ops) = replicate (length (pushed_values ops)) 0 \<and>
         popped_values (run_queue dec ops) =
           map Some (take (pop_count ops) (queue_contents dec @ pushed_values ops))"
  using assms
proof (induction ops arbitrary: dec)
  case Nil
  then show ?case by simp
next
  case (Cons op ops)
  show ?case
  proof (cases op)
    case (Push ev heap)
    have g: "heap \<noteq> ENOMEM"
      using Cons.prems(2) Push by (cases heap) simp_all
    have room: "event_buf_cap dec * 2 * sizeof_event \<le> PTRDIFF_MAX \<and> heap \<noteq> ENOMEM"
      if "queue_full dec"
    proof -
      have "event_buf_cap dec = length (queue_contents dec) + 1"
        using full_length[OF Cons.prems(1) that] by simp
      then show ?thesis
        using Cons.prems(3) Push g by (simp add: sizeof_event_def)
    qed
    from push_granted[OF Cons.prems(1) room, of ev]
    obtain dec' where p: "event_buf_push heap dec ev = (0, dec')" and wf: "wf_queue dec'"
      and c: "queue_contents dec' = queue_contents dec @ [ev]"
      by blast
    have "push_codes (run_queue dec' ops) = replicate (length (pushed_values ops)) 0 \<and>
         popped_values (run_queue dec' ops) =
           map Some (take (pop_count ops) (queue_contents dec' @ pushed_values ops))"
      using Cons.prems Push c by (intro Cons.IH[OF wf]) simp_all
    then show ?thesis using Push p c by simp
  next
    case Pop
    then obtain x xs where c: "queue_contents dec = x # xs"
      using Cons.prems(4) by (cases "queue_contents dec") simp_all
    from pop_front[OF Cons.prems(1) c]
    obtain dec' where p: "event_buf_pop dec = (Some x, dec')" and wf: "wf_queue dec'"
      and c': "queue_contents dec' = xs"
      by blast
    have "push_codes (run_queue dec' ops) = replicate (length (pushed_values ops)) 0 \<and>
         popped_values (run_queue dec' ops) =
           map Some (take (pop_count ops) (queue_contents dec' @ pushed_values ops))"
      using Cons.prems Pop c c' by (intro Cons.IH[OF wf]) (simp_all add: sizeof_event_def)
    then show ?thesis using Pop p c c' by simp
  qed
qed

theorem event_queue_fifo_witness:
  "wf_queue small_queue \<and> list_all heap_grants burst \<and>
   (length (queue_contents small_queue) + length (pushed_values burst)) * 2 * sizeof_event
     \<le> PTRDIFF_MAX \<and>
   pops_within (length (queue_contents small_queue)) burst \<and>
   push_codes (run_queue small_queue burst) = [0, 0, 0, 0, 0, 0, 0, 0, 0] \<and>
   popped_values (run_queue small_queue burst) =
     [Some (ev_at 1), Some (ev_at 2), Some (ev_at 3), Some (ev_at 4), Some (ev_at 5),
      Some (ev_at 6), Some (ev_at 7), Some (ev_at 8), Some (ev_at 9)]"
  using event_queue_fifo [of small_queue burst]
  by (simp add: small_queue_def wf_queue_def sizeof_event_def PTRDIFF_MAX_def burst_def
      queue_contents_def)

text \<open>
  The first four pushes of that sequence, step by step: the fourth finds the four-cell buffer
  full with the live region wrapped around its end, doubles the buffer and moves the tail
  segment (event 1) to the end of the new block before it stores event 4.
\<close>

lemma replicate_three: "replicate 3 x = [x, x, x]"
  by (simp add: numeral_3_eq_3)

lemma burst_grows_wrapped:
  "snd (event_buf_push (Granted zeroed_event)
     (snd (event_buf_push (Granted zeroed_event)
       (snd (event_buf_push (Granted zeroed_event)
         (snd (event_buf_push (Granted zeroed_event) small_queue (ev_at 1)))
         (ev_at 2)))
       (ev_at 3)))
     (ev_at 4))
   = \<lparr>dcd_tree = Dcd_tree [],
      event_buf = [ev_at 2, ev_at 3, ev_at 4, ev_at 1, zeroed_event, zeroed_event,
                   zeroed_event, ev_at 1],
      event_buf_cap = 8, event_buf_head = 3, event_buf_tail = 7,
      error_flag = 0, error_msg = []\<rparr>"
  by (simp add: small_queue_def event_buf_push_def Let_def sz_add_def sz_sub_def sz_mul_def
      SIZE_MOD_def realloc_def memmove_def sizeof_event_def PTRDIFF_MAX_def
      replicate_three)

section \<open>Every session the API reaches has a well-formed queue\<close>

text \<open>
  \<^verbatim>\<open>mtrace_opencsd_create\<close> returns a session whose queue is well formed, and every call a
  consumer can make keeps it so, whatever the engine and the heap answer: the hypothesis
  \<open>wf_queue\<close> of the properties below holds of every session a program can hold.
\<close>

lemma push_wf:
  assumes "wf_queue dec"
  shows "wf_queue (snd (event_buf_push heap dec ev))"
proof (cases "push_refused heap dec")
  case True
  then show ?thesis using assms by (simp add: push_refuses)
next
  case False
  from push_accepts[OF assms False, of ev] show ?thesis by auto
qed

lemma pop_wf:
  assumes "wf_queue dec"
  shows "wf_queue (snd (event_buf_pop dec))"
proof (cases "queue_contents dec")
  case Nil
  then show ?thesis using assms by (simp add: pop_empty)
next
  case (Cons x xs)
  from pop_front[OF assms Cons] show ?thesis by auto
qed

lemma wf_queue_frame:
  "wf_queue (dec\<lparr>dcd_tree := t\<rparr>) = wf_queue dec"
  "wf_queue (dec\<lparr>error_msg := m\<rparr>) = wf_queue dec"
  "wf_queue (dec\<lparr>error_flag := f\<rparr>) = wf_queue dec"
  by (simp_all add: wf_queue_def)

lemma push_latch_wf:
  assumes "wf_queue dec"
  shows "wf_queue (snd (case event_buf_push heap dec ev of
           (rc, dec1) \<Rightarrow>
             if rc \<noteq> 0 then (OCSD_RESP_FATAL_SYS_ERR, dec1\<lparr>error_msg := m, error_flag := 1\<rparr>)
             else (OCSD_RESP_CONT, dec1)))"
  using push_wf[OF assms, of heap ev]
  by (cases "event_buf_push heap dec ev") (simp add: wf_queue_frame)

lemma callback_wf:
  assumes "wf_queue dec"
  shows "wf_queue (snd (gen_elem_callback heap dec elem))"
  using assms
  by (cases "elem_type elem")
    (simp_all add: gen_elem_callback_def Let_def push_latch_wf)

lemma deliver_wf: "wf_queue dec \<Longrightarrow> wf_queue (deliver dec es)"
  by (induction dec es rule: deliver.induct) (simp_all add: callback_wf)

lemma api_step_wf:
  assumes "wf_queue dec"
  shows "wf_queue (api_step dec c)"
  using assms
  by (cases c)
    (simp_all add: mtrace_opencsd_add_image_def ocsd_dt_add_named_mem_acc_def
      mtrace_opencsd_decode_def mtrace_opencsd_flush_def mtrace_opencsd_next_event_def
      ocsd_dt_process_data_def pop_wf deliver_wf wf_queue_frame)

lemma api_run_wf: "wf_queue dec \<Longrightarrow> wf_queue (api_run dec cs)"
  by (induction cs arbitrary: dec) (simp_all add: api_step_wf)

lemma create_wf:
  assumes "mtrace_opencsd_create env protocol trace_id arch_version = (freed, Some dec)"
  shows "wf_queue dec \<and> event_buf_cap dec = 256 \<and> queue_contents dec = []"
  using assms
  by (auto simp: mtrace_opencsd_create_def malloc_def sz_mul_def SIZE_MOD_def sizeof_event_def
      PTRDIFF_MAX_def ocsd_create_dcd_tree_def Let_def wf_queue_def queue_contents_def
      split: if_splits option.splits heap_reply.splits prod.splits)

section \<open>The element classifier\<close>

lemma callback_pushes:
  assumes "wf_queue dec" "\<not> push_refused heap dec"
    and "(case elem_type elem of
            OCSD_GEN_TRC_ELEM_INSTR_RANGE \<Rightarrow>
              Some (zeroed_event\<lparr>timestamp := elem_timestamp elem,
                      kind :=
                        (if last_instr_type elem = OCSD_INSTR_BR_INDIRECT
                         then MTRACE_CS_EVENT_RETURN
                         else if last_instr_type elem = OCSD_INSTR_BR
                         then MTRACE_CS_EVENT_CALL
                         else MTRACE_CS_EVENT_INSTRUCTION_RANGE),
                      from_addr := st_addr elem,
                      to_addr := en_addr elem,
                      cpu := context_ctxt_id elem\<rparr>)
          | OCSD_GEN_TRC_ELEM_TRACE_ON \<Rightarrow>
              Some (zeroed_event\<lparr>timestamp := elem_timestamp elem,
                      kind := MTRACE_CS_EVENT_TRACE_ON, from_addr := st_addr elem\<rparr>)
          | OCSD_GEN_TRC_ELEM_TRACE_OFF \<Rightarrow>
              Some (zeroed_event\<lparr>timestamp := elem_timestamp elem,
                      kind := MTRACE_CS_EVENT_TRACE_OFF, from_addr := st_addr elem\<rparr>)
          | OCSD_GEN_TRC_ELEM_EXCEPTION \<Rightarrow>
              Some (zeroed_event\<lparr>timestamp := elem_timestamp elem,
                      kind := MTRACE_CS_EVENT_EXCEPTION, from_addr := st_addr elem,
                      exception_number := elem_exception_number elem\<rparr>)
          | OCSD_GEN_TRC_ELEM_EXCEPTION_RET \<Rightarrow>
              Some (zeroed_event\<lparr>timestamp := elem_timestamp elem,
                      kind := MTRACE_CS_EVENT_EXCEPTION_RET, from_addr := st_addr elem\<rparr>)
          | OCSD_GEN_TRC_ELEM_OTHER _ \<Rightarrow> None) = Some ev"
  shows "callback_yields heap dec elem ev"
proof -
  from push_accepts[OF assms(1,2), of ev] obtain dec' where
    "event_buf_push heap dec ev = (0, dec')" "wf_queue dec'"
    "queue_contents dec' = queue_contents dec @ [ev]"
    "dcd_tree dec' = dcd_tree dec" "error_flag dec' = error_flag dec"
    "error_msg dec' = error_msg dec"
    by blast
  then show ?thesis
    using assms(3) by (simp add: callback_yields_def gen_elem_callback_def Let_def)
qed



section \<open>Allocation failure\<close>

text \<open>
  Claim C3. Queue growth is atomic on allocation failure: when a push on a well-formed queue
  finds the buffer full and the reallocation fails, the push returns \<open>- 1\<close> and the session
  after the call is the session before it: buffer, capacity, head and tail are untouched and
  the new element is not committed, so the queue is as usable as it was.
\<close>

theorem push_growth_failure_atomic:
  assumes "wf_queue dec" and "queue_full dec"
    and "realloc heap (event_buf dec) (sz_mul (sz_mul (event_buf_cap dec) 2) sizeof_event)
           = None"
  shows "event_buf_push heap dec ev = (- 1, dec)"
  using assms(2,3) by (rule push_full_refused)

theorem push_growth_failure_atomic_witness:
  "wf_queue full_queue \<and> queue_full full_queue \<and>
   realloc ENOMEM (event_buf full_queue)
     (sz_mul (sz_mul (event_buf_cap full_queue) 2) sizeof_event) = None \<and>
   event_buf_push ENOMEM full_queue (ev_at 4) = (- 1, full_queue) \<and>
   queue_contents full_queue = [ev_at 1, ev_at 2, ev_at 3]"
proof -
  have wf: "wf_queue full_queue"
    by (simp add: full_queue_def wf_queue_def sizeof_event_def PTRDIFF_MAX_def)
  have full: "queue_full full_queue"
    by (simp add: full_queue_def queue_full_def sz_add_def SIZE_MOD_def)
  have no: "realloc ENOMEM (event_buf full_queue)
     (sz_mul (sz_mul (event_buf_cap full_queue) 2) sizeof_event) = None"
    by (simp add: realloc_def)
  show ?thesis
    using wf full no push_growth_failure_atomic [OF wf full no, of "ev_at 4"]
    by (simp add: full_queue_def queue_contents_def)
qed

text \<open>
  Claim C4. Whenever a push performed inside the classifier callback fails, the callback
  returns the engine's fatal-system-error status and latches the session's error state: the
  error flag is set to 1 and the message says that the event buffer allocation failed. The
  rest of the session is as before the call.
\<close>

theorem callback_push_failure_fatal:
  assumes "wf_queue dec" and "push_refused heap dec" and "\<not> dropped_kind (elem_type elem)"
  shows "gen_elem_callback heap dec elem =
    (OCSD_RESP_FATAL_SYS_ERR,
     dec\<lparr>error_msg := ''opencsd: event buffer allocation failed'', error_flag := 1\<rparr>)"
  using assms(3) push_refuses[OF assms(2)]
  by (cases "elem_type elem")
    (simp_all add: gen_elem_callback_def Let_def snprintf_error_msg_def)

theorem callback_push_failure_fatal_witness:
  "wf_queue full_queue \<and> push_refused ENOMEM full_queue \<and>
   \<not> dropped_kind (elem_type trace_on_elem) \<and>
   gen_elem_callback ENOMEM full_queue trace_on_elem =
     (OCSD_RESP_FATAL_SYS_ERR,
      full_queue\<lparr>error_msg := ''opencsd: event buffer allocation failed'', error_flag := 1\<rparr>)"
proof -
  have wf: "wf_queue full_queue"
    by (simp add: full_queue_def wf_queue_def sizeof_event_def PTRDIFF_MAX_def)
  have refused: "push_refused ENOMEM full_queue"
    by (simp add: push_refused_def full_queue_def queue_full_def sz_add_def SIZE_MOD_def
        realloc_def)
  have kind: "\<not> dropped_kind (elem_type trace_on_elem)"
    by (simp add: trace_on_elem_def)
  show ?thesis
    using wf refused kind callback_push_failure_fatal [OF wf refused kind] by simp
qed

section \<open>The session's error state\<close>






section \<open>Draining\<close>

lemma drain_all:
  "wf_queue dec \<Longrightarrow>
     next_events (Suc (length (queue_contents dec))) dec = map Some (queue_contents dec) @ [None]"
proof (induction "queue_contents dec" arbitrary: dec)
  case Nil
  then show ?case
    using pop_empty[of dec] by (simp add: mtrace_opencsd_next_event_def)
next
  case (Cons x xs)
  from pop_front[OF Cons.prems Cons.hyps(2)[symmetric]]
  obtain dec' where p: "event_buf_pop dec = (Some x, dec')" and wf: "wf_queue dec'"
    and c: "queue_contents dec' = xs"
    by blast
  have "next_events (Suc (length (queue_contents dec'))) dec'
          = map Some (queue_contents dec') @ [None]"
    using Cons.hyps(1)[OF c[symmetric] wf] .
  then show ?case
    using p c Cons.hyps(2)[symmetric] by (simp add: mtrace_opencsd_next_event_def)
qed

lemma latch_queue:
  "wf_queue (dec\<lparr>error_msg := m, error_flag := f\<rparr>) = wf_queue dec"
  "queue_contents (dec\<lparr>error_msg := m, error_flag := f\<rparr>) = queue_contents dec"
  by (simp_all add: wf_queue_def queue_contents_def)

text \<open>
  Claim C6. Draining ignores the error state. Whatever flag \<open>f\<close> and message \<open>m\<close> are latched
  on a session, \<^verbatim>\<open>mtrace_opencsd_next_event\<close> returns what it returns without them and
  changes the queue in the same way; and calling it again and again on the errored session
  returns every event that was in the queue when the error was latched, in order, and then
  reports that the queue is empty.
\<close>

theorem drain_ignores_error_state:
  assumes "wf_queue dec"
  shows "mtrace_opencsd_next_event (dec\<lparr>error_msg := m, error_flag := f\<rparr>) =
           (fst (mtrace_opencsd_next_event dec),
            (snd (mtrace_opencsd_next_event dec))\<lparr>error_msg := m, error_flag := f\<rparr>) \<and>
         next_events (Suc (length (queue_contents dec)))
             (dec\<lparr>error_msg := m, error_flag := f\<rparr>)
           = map Some (queue_contents dec) @ [None]"
proof -
  have "wf_queue (dec\<lparr>error_msg := m, error_flag := f\<rparr>)"
    using assms by (simp add: latch_queue)
  from drain_all[OF this] show ?thesis
    by (simp add: latch_queue mtrace_opencsd_next_event_def event_buf_pop_def)
qed

lemma fmt_llu_zero: "fmt_llu 0 = ''0''"
  by (simp add: fmt_llu.simps [of 0] digit_char_def)

lemma decode_two_then_fatal:
  "mtrace_opencsd_decode two_then_fatal small_queue [] 0 0 =
     (- 1, after_two\<lparr>error_msg := ''opencsd: decode error at index 0: General failure'',
                     error_flag := 1\<rparr>)"
  by (simp add: mtrace_opencsd_decode_def ocsd_dt_process_data_def two_then_fatal_def
      small_queue_def after_two_def gen_elem_callback_def event_buf_push_def Let_def
      indirect_range_elem_def exception_elem_def zeroed_event_def sz_add_def SIZE_MOD_def
      snprintf_error_msg_def fmt_llu_zero)

theorem drain_ignores_error_state_witness:
  "wf_queue after_two \<and>
   mtrace_opencsd_has_error (snd (mtrace_opencsd_decode two_then_fatal small_queue [] 0 0)) = 1 \<and>
   next_events 3 (snd (mtrace_opencsd_decode two_then_fatal small_queue [] 0 0)) =
     [Some \<lparr>kind = MTRACE_CS_EVENT_RETURN, timestamp = 7, from_addr = 0x1000,
            to_addr = 0x1010, cpu = 3, exception_number = 0\<rparr>,
      Some \<lparr>kind = MTRACE_CS_EVENT_EXCEPTION, timestamp = 9, from_addr = 0x2000, to_addr = 0,
            cpu = 0, exception_number = 11\<rparr>,
      None]"
proof -
  have wf: "wf_queue after_two"
    by (simp add: after_two_def wf_queue_def sizeof_event_def PTRDIFF_MAX_def)
  have c: "queue_contents after_two =
     [\<lparr>kind = MTRACE_CS_EVENT_RETURN, timestamp = 7, from_addr = 0x1000,
            to_addr = 0x1010, cpu = 3, exception_number = 0\<rparr>,
      \<lparr>kind = MTRACE_CS_EVENT_EXCEPTION, timestamp = 9, from_addr = 0x2000, to_addr = 0,
            cpu = 0, exception_number = 11\<rparr>]"
    by (simp add: after_two_def queue_contents_def)
  have n: "Suc (length (queue_contents after_two)) = 3"
    by (simp add: c)
  have "next_events (Suc (length (queue_contents after_two)))
          (after_two\<lparr>error_msg := ''opencsd: decode error at index 0: General failure'',
                      error_flag := 1\<rparr>)
        = map Some (queue_contents after_two) @ [None]"
    using drain_ignores_error_state [OF wf,
        where m = "''opencsd: decode error at index 0: General failure''" and f = 1]
    by (rule conjunct2)
  then have "next_events 3
          (after_two\<lparr>error_msg := ''opencsd: decode error at index 0: General failure'',
                      error_flag := 1\<rparr>)
        = map Some (queue_contents after_two) @ [None]"
    unfolding n .
  then show ?thesis
    using wf by (simp add: c decode_two_then_fatal mtrace_opencsd_has_error_def)
qed

section \<open>Creation, image registration and flush\<close>

lemma create_fresh: "mtrace_opencsd_create ok_env 0 0 4 = ([], Some fresh_session)"
  by (simp add: mtrace_opencsd_create_def ok_env_def ok_reply_def fresh_session_def malloc_def
      sz_mul_def SIZE_MOD_def sizeof_event_def PTRDIFF_MAX_def ocsd_create_dcd_tree_def Let_def)

lemma wf_fresh: "wf_queue fresh_session"
  by (simp add: fresh_session_def wf_queue_def sizeof_event_def PTRDIFF_MAX_def)

lemma fresh_empty: "queue_contents fresh_session = []"
  by (simp add: fresh_session_def queue_contents_def)

lemma fresh_not_full: "\<not> queue_full fresh_session"
  by (simp add: fresh_session_def queue_full_def sz_add_def SIZE_MOD_def)

text \<open>
  Claim C7. flush has the same error semantics as feed: on an errored session it fails fast,
  and when the engine returns a non-recoverable status the error flag is set and a message
  is latched. The second half does not hold of \<^verbatim>\<open>mtrace_opencsd_flush\<close>. On the session that
  \<^verbatim>\<open>mtrace_opencsd_create\<close> returns, a flush to which the engine answers with a failure status
  returns \<open>- 1\<close> and leaves the error flag 0 and the message empty, where
  \<^verbatim>\<open>mtrace_opencsd_decode\<close>, given the same answer, sets the flag to 1.
\<close>

theorem flush_fatal_status_not_latched:
  "fst (mtrace_opencsd_flush fatal_process_reply fresh_session) = - 1 \<and>
   mtrace_opencsd_has_error (snd (mtrace_opencsd_flush fatal_process_reply fresh_session)) = 0 \<and>
   mtrace_opencsd_error_msg (snd (mtrace_opencsd_flush fatal_process_reply fresh_session)) = [] \<and>
   mtrace_opencsd_has_error
     (snd (mtrace_opencsd_decode fatal_process_reply fresh_session [] 0 0)) = 1"
  by (simp add: mtrace_opencsd_flush_def mtrace_opencsd_decode_def ocsd_dt_process_data_def
      mtrace_opencsd_has_error_def mtrace_opencsd_error_msg_def
      fatal_process_reply_def fresh_session_def)

lemma registered_images_append:
  "registered_images (xs @ ys) = registered_images xs @ registered_images ys"
  by (induction xs rule: registered_images.induct) simp_all

lemma registered_images_rejected:
  "err \<noteq> OCSD_OK \<Longrightarrow>
     registered_images (tree_calls (tree_log tree (Add_named_mem_acc st en path off err)))
       = registered_images (tree_calls tree)"
  by (cases tree; cases err) (simp_all add: registered_images_append)

text \<open>
  Claim C8, as stated: a failed addImage call changes no session state, in particular the
  latched error message is not altered. This fails: on the session that
  \<^verbatim>\<open>mtrace_opencsd_create\<close> returns, whose message is empty, an image registration the engine
  rejects leaves a different message.
\<close>

theorem add_image_failure_alters_message:
  "error_msg
     (snd (mtrace_opencsd_add_image failed_reply fresh_session ''a.out'' 0x400000 0 0x10000))
     \<noteq> error_msg fresh_session"
  by (simp add: mtrace_opencsd_add_image_def ocsd_dt_add_named_mem_acc_def failed_reply_def
      fresh_session_def snprintf_error_msg_def)

text \<open>
  Claim C8, amended. When the engine rejects an image registration, the call returns \<open>- 1\<close>,
  the error flag keeps its value, the queue (buffer, capacity, head, tail) and the list of
  registered images are unchanged, and the session's message is overwritten with the
  description of the rejection, cut to 255 characters.
\<close>

theorem add_image_failure_local:
  assumes "reply_err reply \<noteq> OCSD_OK"
  shows "fst (mtrace_opencsd_add_image reply dec filename load_address offset size_bytes) = - 1 \<and>
    error_flag (snd (mtrace_opencsd_add_image reply dec filename load_address offset size_bytes))
      = error_flag dec \<and>
    error_msg (snd (mtrace_opencsd_add_image reply dec filename load_address offset size_bytes))
      = take 255 (''opencsd: add_named_mem_acc failed for '' @ filename @ '': ''
                  @ reply_err_str reply) \<and>
    event_buf (snd (mtrace_opencsd_add_image reply dec filename load_address offset size_bytes))
      = event_buf dec \<and>
    event_buf_cap
        (snd (mtrace_opencsd_add_image reply dec filename load_address offset size_bytes))
      = event_buf_cap dec \<and>
    event_buf_head
        (snd (mtrace_opencsd_add_image reply dec filename load_address offset size_bytes))
      = event_buf_head dec \<and>
    event_buf_tail
        (snd (mtrace_opencsd_add_image reply dec filename load_address offset size_bytes))
      = event_buf_tail dec \<and>
    registered_images (tree_calls (dcd_tree
        (snd (mtrace_opencsd_add_image reply dec filename load_address offset size_bytes))))
      = registered_images (tree_calls (dcd_tree dec))"
  using assms
  by (simp add: mtrace_opencsd_add_image_def ocsd_dt_add_named_mem_acc_def
      snprintf_error_msg_def registered_images_rejected)

theorem add_image_failure_local_witness:
  "reply_err failed_reply \<noteq> OCSD_OK \<and>
   fst (mtrace_opencsd_add_image failed_reply errored_session ''a.out'' 0x400000 0 0x10000)
     = - 1 \<and>
   error_flag
     (snd (mtrace_opencsd_add_image failed_reply errored_session ''a.out'' 0x400000 0 0x10000))
     = 1 \<and>
   error_msg
     (snd (mtrace_opencsd_add_image failed_reply errored_session ''a.out'' 0x400000 0 0x10000))
     = ''opencsd: add_named_mem_acc failed for a.out: General failure'' \<and>
   registered_images (tree_calls (dcd_tree
     (snd (mtrace_opencsd_add_image failed_reply errored_session ''a.out'' 0x400000 0 0x10000))))
     = []"
proof -
  have r: "reply_err failed_reply \<noteq> OCSD_OK"
    by (simp add: failed_reply_def)
  show ?thesis
    using r add_image_failure_local [OF r, of errored_session "''a.out''" "0x400000" 0 "0x10000"]
    by (simp add: errored_session_def fresh_session_def failed_reply_def)
qed

text \<open>
  Claim C9, as stated: whenever engine construction fails after the session and its queue
  have been allocated, create still returns a non-null session. This fails when the engine
  cannot create the decode tree: create then frees the buffer and the session and returns
  \<^verbatim>\<open>NULL\<close>.
\<close>

theorem create_tree_failure_returns_null:
  "mtrace_opencsd_create no_tree_env 0 0 4 = ([Freed_event_buf, Freed_decoder], None)"
  by (simp add: mtrace_opencsd_create_def no_tree_env_def malloc_def
      sz_mul_def SIZE_MOD_def sizeof_event_def PTRDIFF_MAX_def ocsd_create_dcd_tree_def Let_def)

text \<open>
  Claim C9, amended. Take any create call in which the session and its queue are allocated.
  When the engine creates the decode tree but the creation of the decoder in that tree
  fails, create frees nothing and returns a session (not \<^verbatim>\<open>NULL\<close>) whose error flag is 1 and
  whose message names the failed call; its queue is well formed, of 256 cells and empty; and
  destroying the session releases the decode tree, the buffer and the session. When the
  engine cannot create the decode tree, create frees the buffer and the session and returns
  \<^verbatim>\<open>NULL\<close>.
\<close>

theorem create_engine_failure:
  assumes "calloc_ok env" and "buf_heap env \<noteq> ENOMEM"
  shows "(tree_ok env \<and> reply_err (decoder_reply env) \<noteq> OCSD_OK \<longrightarrow>
      (\<exists>dec. mtrace_opencsd_create env protocol trace_id arch_version = ([], Some dec) \<and>
        mtrace_opencsd_has_error dec = 1 \<and>
        mtrace_opencsd_error_msg dec =
          take 255 (''opencsd: ocsd_dt_create_decoder failed: ''
                    @ reply_err_str (decoder_reply env)) \<and>
        wf_queue dec \<and> event_buf_cap dec = 256 \<and> queue_contents dec = [] \<and>
        mtrace_opencsd_destroy (Some dec)
          = [Destroyed_dcd_tree, Freed_event_buf, Freed_decoder])) \<and>
    (\<not> tree_ok env \<longrightarrow>
      mtrace_opencsd_create env protocol trace_id arch_version
        = ([Freed_event_buf, Freed_decoder], None))"
proof -
  obtain junk where h: "buf_heap env = Granted junk"
    using assms(2) by (cases "buf_heap env") simp_all
  have latched: "\<exists>dec. mtrace_opencsd_create env protocol trace_id arch_version = ([], Some dec) \<and>
        mtrace_opencsd_has_error dec = 1 \<and>
        mtrace_opencsd_error_msg dec =
          take 255 (''opencsd: ocsd_dt_create_decoder failed: ''
                    @ reply_err_str (decoder_reply env)) \<and>
        wf_queue dec \<and> event_buf_cap dec = 256 \<and> queue_contents dec = [] \<and>
        mtrace_opencsd_destroy (Some dec)
          = [Destroyed_dcd_tree, Freed_event_buf, Freed_decoder]"
    if "tree_ok env" "reply_err (decoder_reply env) \<noteq> OCSD_OK"
    using assms(1) h that
    by (simp add: mtrace_opencsd_create_def malloc_def sz_mul_def SIZE_MOD_def sizeof_event_def
        PTRDIFF_MAX_def ocsd_create_dcd_tree_def Let_def mtrace_opencsd_has_error_def
        mtrace_opencsd_error_msg_def snprintf_error_msg_def wf_queue_def queue_contents_def
        mtrace_opencsd_destroy_def split: prod.splits)
  have null: "mtrace_opencsd_create env protocol trace_id arch_version
        = ([Freed_event_buf, Freed_decoder], None)"
    if "\<not> tree_ok env"
    using assms(1) h that
    by (simp add: mtrace_opencsd_create_def malloc_def sz_mul_def SIZE_MOD_def sizeof_event_def
        PTRDIFF_MAX_def ocsd_create_dcd_tree_def Let_def)
  show ?thesis
    using latched null by blast
qed

theorem create_engine_failure_witness:
  "calloc_ok no_decoder_env \<and> buf_heap no_decoder_env \<noteq> ENOMEM \<and> tree_ok no_decoder_env \<and>
   reply_err (decoder_reply no_decoder_env) \<noteq> OCSD_OK \<and>
   (\<exists>dec. mtrace_opencsd_create no_decoder_env 0 0 4 = ([], Some dec) \<and>
      mtrace_opencsd_has_error dec = 1 \<and>
      mtrace_opencsd_error_msg dec = ''opencsd: ocsd_dt_create_decoder failed: General failure'' \<and>
      mtrace_opencsd_destroy (Some dec) = [Destroyed_dcd_tree, Freed_event_buf, Freed_decoder]) \<and>
   calloc_ok no_tree_env \<and> buf_heap no_tree_env \<noteq> ENOMEM \<and> \<not> tree_ok no_tree_env \<and>
   mtrace_opencsd_create no_tree_env 3 0 5 = ([Freed_event_buf, Freed_decoder], None)"
proof -
  have a: "calloc_ok no_decoder_env" "buf_heap no_decoder_env \<noteq> ENOMEM"
    and b: "tree_ok no_decoder_env" "reply_err (decoder_reply no_decoder_env) \<noteq> OCSD_OK"
    by (simp_all add: no_decoder_env_def failed_reply_def)
  have c: "calloc_ok no_tree_env" "buf_heap no_tree_env \<noteq> ENOMEM"
    and d: "\<not> tree_ok no_tree_env"
    by (simp_all add: no_tree_env_def)
  have s: "reply_err_str (decoder_reply no_decoder_env) = ''General failure''"
    by (simp add: no_decoder_env_def failed_reply_def)
  from create_engine_failure [OF a, of 0 0 4] b
  obtain dec where "mtrace_opencsd_create no_decoder_env 0 0 4 = ([], Some dec)"
    "mtrace_opencsd_has_error dec = 1"
    "mtrace_opencsd_error_msg dec =
       take 255 (''opencsd: ocsd_dt_create_decoder failed: ''
                 @ reply_err_str (decoder_reply no_decoder_env))"
    "mtrace_opencsd_destroy (Some dec) = [Destroyed_dcd_tree, Freed_event_buf, Freed_decoder]"
    by blast
  moreover have "mtrace_opencsd_create no_tree_env 3 0 5
      = ([Freed_event_buf, Freed_decoder], None)"
    using create_engine_failure [OF c, of 3 0 5] d by blast
  ultimately show ?thesis
    using a b c d by (simp add: s)
qed

text \<open>
  Claim C10. Every event the classifier produces carries a timestamp and a cpu field equal
  to \<open>- 1\<close> when the core is unknown, in particular TraceOn, TraceOff, Exception and
  ExceptionReturn events. The cpu part does not hold of \<^verbatim>\<open>gen_elem_callback\<close>: for a trace-on
  element delivered to the session that \<^verbatim>\<open>mtrace_opencsd_create\<close> returns, the one event in
  the queue afterwards has cpu 0, left by the \<^verbatim>\<open>memset\<close>, not \<open>- 1\<close>.
\<close>

theorem trace_on_event_cpu_zero:
  "map (sint \<circ> cpu)
     (queue_contents (snd (gen_elem_callback (Granted zeroed_event) fresh_session trace_on_elem)))
   = [0]"
proof -
  have nr: "\<not> push_refused (Granted zeroed_event) fresh_session"
    using fresh_not_full by (simp add: push_refused_def)
  have "callback_yields (Granted zeroed_event) fresh_session trace_on_elem
     (zeroed_event\<lparr>timestamp := 0, kind := MTRACE_CS_EVENT_TRACE_ON, from_addr := 0x400000\<rparr>)"
    by (rule callback_pushes[OF wf_fresh nr]) (simp add: trace_on_elem_def)
  then show ?thesis
    by (simp add: callback_yields_def fresh_empty zeroed_event_def)
qed

end
